theory Spec2Isabelle
  imports Main
begin

section \<open>Text\<close>

text \<open>
  Message texts are modelled as HOL strings. The parser's trimming, case folding and
  tokenising are those of Python's \<open>str\<close> on ASCII text; the pictographs of the
  reply texts are carried as named constants holding their UTF-8 bytes. Lengths that
  matter to a property (the chunking of a reply) are stated for lists of any element
  type, so they do not depend on this choice.
\<close>

definition robot :: string where "robot = [CHR 0xF0, CHR 0x9F, CHR 0xA4, CHR 0x96]"
definition bulb :: string where "bulb = [CHR 0xF0, CHR 0x9F, CHR 0x92, CHR 0xA1]"
definition wave :: string where "wave = [CHR 0xF0, CHR 0x9F, CHR 0x91, CHR 0x8B]"
definition rocket :: string where "rocket = [CHR 0xF0, CHR 0x9F, CHR 0x9A, CHR 0x80]"
definition cross_mark :: string where "cross_mark = [CHR 0xE2, CHR 0x9D, CHR 0x8C]"
definition page :: string where "page = [CHR 0xF0, CHR 0x9F, CHR 0x93, CHR 0x84]"
definition magnifier :: string where "magnifier = [CHR 0xF0, CHR 0x9F, CHR 0x94, CHR 0x8D]"
definition check_mark :: string where "check_mark = [CHR 0xE2, CHR 0x9C, CHR 0x85]"
definition memo :: string where "memo = [CHR 0xF0, CHR 0x9F, CHR 0x93, CHR 0x9D]"
definition link_sign :: string where "link_sign = [CHR 0xF0, CHR 0x9F, CHR 0x94, CHR 0x97]"
definition office :: string where "office = [CHR 0xF0, CHR 0x9F, CHR 0x8F, CHR 0xA2]"
definition money_bag :: string where "money_bag = [CHR 0xF0, CHR 0x9F, CHR 0x92, CHR 0xB0]"
definition sparkles :: string where "sparkles = [CHR 0xE2, CHR 0x9C, CHR 0xA8]"
definition bar_chart :: string where "bar_chart = [CHR 0xF0, CHR 0x9F, CHR 0x93, CHR 0x8A]"
definition pin :: string where "pin = [CHR 0xF0, CHR 0x9F, CHR 0x93, CHR 0x8D]"

text \<open>\<open>str.isspace\<close> on ASCII: tab to carriage return, the four separators, space.\<close>

definition is_space :: "char \<Rightarrow> bool" where
  "is_space c = (let n = (of_char c :: nat) in (9 \<le> n \<and> n \<le> 13) \<or> (28 \<le> n \<and> n \<le> 32))"

definition is_digit :: "char \<Rightarrow> bool" where
  "is_digit c = (let n = (of_char c :: nat) in 48 \<le> n \<and> n \<le> 57)"

definition digit_val :: "char \<Rightarrow> nat" where
  "digit_val c = of_char c - 48"

definition digit_char :: "nat \<Rightarrow> char" where
  "digit_char d = char_of (48 + d)"

definition lower_char :: "char \<Rightarrow> char" where
  "lower_char c = (let n = (of_char c :: nat) in if 65 \<le> n \<and> n \<le> 90 then char_of (n + 32) else c)"

text \<open>\<open>s.lower()\<close>, \<open>s.strip()\<close>, \<open>s.startswith(p)\<close>.\<close>

definition lower :: "string \<Rightarrow> string" where
  "lower s = map lower_char s"

definition strip :: "string \<Rightarrow> string" where
  "strip s = rev (dropWhile is_space (rev (dropWhile is_space s)))"

definition startswith :: "string \<Rightarrow> string \<Rightarrow> bool" where
  "startswith s p = (take (length p) s = p)"

text \<open>\<open>s.replace(old, "")\<close>: every occurrence of \<open>old\<close>, left to right, is deleted.\<close>

fun remove_all :: "string \<Rightarrow> string \<Rightarrow> string" where
  "remove_all old [] = []"
| "remove_all old (c # cs) =
     (if old \<noteq> [] \<and> startswith (c # cs) old
      then remove_all old (drop (length old) (c # cs))
      else c # remove_all old cs)"

text \<open>\<open>s.split()\<close>: the maximal runs of non-space characters.\<close>

fun split_from :: "string \<Rightarrow> string \<Rightarrow> string list" where
  "split_from [] cur = (if cur = [] then [] else [cur])"
| "split_from (c # cs) cur =
     (if is_space c then (if cur = [] then split_from cs [] else cur # split_from cs [])
      else split_from cs (cur @ [c]))"

definition split :: "string \<Rightarrow> string list" where
  "split s = split_from s []"

text \<open>\<open>sep.join(xs)\<close>.\<close>

fun join :: "string \<Rightarrow> string list \<Rightarrow> string" where
  "join sep [] = []"
| "join sep [x] = x"
| "join sep (x # y # ys) = x @ sep @ join sep (y # ys)"

text \<open>
  \<open>int(s)\<close> in base ten: surrounding white space, one optional sign, then digits, where
  single underscores may stand between digits. \<open>None\<close> is the \<open>ValueError\<close>. The
  interpreter's bound on the number of digits (4300 by default) is left out: a chat
  message is shorter than that.
\<close>

fun parse_digits :: "string \<Rightarrow> nat \<Rightarrow> nat option" where
  "parse_digits [] acc = Some acc"
| "parse_digits (c # cs) acc =
     (if is_digit c then parse_digits cs (acc * 10 + digit_val c)
      else if c = CHR ''_'' then
        (case cs of
           [] \<Rightarrow> None
         | d # ds \<Rightarrow> if is_digit d then parse_digits ds (acc * 10 + digit_val d) else None)
      else None)"

definition parse_unsigned :: "string \<Rightarrow> nat option" where
  "parse_unsigned s =
     (case s of [] \<Rightarrow> None | c # cs \<Rightarrow> if is_digit c then parse_digits cs (digit_val c) else None)"

definition py_int :: "string \<Rightarrow> int option" where
  "py_int s =
     (case strip s of
        [] \<Rightarrow> None
      | c # cs \<Rightarrow>
          if c = CHR ''-'' then map_option (\<lambda>n. - int n) (parse_unsigned cs)
          else if c = CHR ''+'' then map_option int (parse_unsigned cs)
          else map_option int (parse_unsigned (c # cs)))"

text \<open>\<open>str(n)\<close> for a natural number and for an integer.\<close>

fun str_nat :: "nat \<Rightarrow> string" where
  "str_nat n = (if n < 10 then [digit_char n] else str_nat (n div 10) @ [digit_char (n mod 10)])"

declare str_nat.simps [simp del]

definition str_int :: "int \<Rightarrow> string" where
  "str_int i = (if i < 0 then CHR ''-'' # str_nat (nat (- i)) else str_nat (nat i))"


text \<open>A value interpolated into an f-string: \<open>None\<close> prints as the word.\<close>

fun fmt :: "string option \<Rightarrow> string" where
  "fmt None = ''None''"
| "fmt (Some s) = s"

section \<open>Jobs and the agent state\<close>

text \<open>
  A job is a dictionary read at seven keys. A key is missing, holds \<open>None\<close>, or holds a
  text.
\<close>

datatype field = Absent | Null | Str string

text \<open>\<open>d.get(k)\<close> and \<open>d.get(k, default)\<close>.\<close>

fun get :: "field \<Rightarrow> string option" where
  "get Absent = None"
| "get Null = None"
| "get (Str s) = Some s"

fun get_or :: "field \<Rightarrow> string \<Rightarrow> string option" where
  "get_or Absent dflt = Some dflt"
| "get_or Null dflt = None"
| "get_or (Str s) dflt = Some s"

record job =
  title :: field
  company :: field
  job_location :: field
  salary :: field
  link :: field
  source :: field
  snippet :: field

text \<open>The key two jobs are compared by: \<open>j.get("link")\<close>.\<close>

abbreviation link_of :: "job \<Rightarrow> string option" where
  "link_of j \<equiv> get (link j)"

text \<open>\<open>JobAgentState\<close>; \<open>messages\<close> holds the content of each message.\<close>

record state =
  telegram_user_id :: string
  base_resume :: "string option"
  search_query :: "string option"
  location :: "string option"
  jobs_found :: "job list"
  selected_job_index :: "int option"
  selected_job :: "job option"
  customized_resume :: "string option"
  cover_letter :: "string option"
  composed_pdf_path :: "string option"
  sheets_exported :: bool
  sheets_url :: "string option"
  messages :: "string list"
  current_action :: string
  response :: string
  error :: "string option"

definition create_initial_state :: "string \<Rightarrow> state" where
  "create_initial_state user_id =
     \<lparr>telegram_user_id = user_id, base_resume = None, search_query = None, location = None,
      jobs_found = [], selected_job_index = None, selected_job = None,
      customized_resume = None, cover_letter = None, composed_pdf_path = None,
      sheets_exported = False, sheets_url = None, messages = [], current_action = [],
      response = [], error = None\<rparr>"

text \<open>
  A node returns a dictionary of the keys it sets: a list of updates, in the order the
  source writes them. The graph merges it into the state key by key, leaving every key
  that is not named as it was.
\<close>

datatype upd =
    CurrentAction string
  | Response string
  | Error "string option"
  | SearchQuery string
  | Location string
  | JobsFound "job list"
  | SelectedJobIndex int
  | SelectedJob job
  | CustomizedResume string
  | CoverLetter string
  | ComposedPdfPath string
  | SheetsExported bool
  | SheetsUrl string

type_synonym delta = "upd list"

fun key :: "upd \<Rightarrow> string" where
  "key (CurrentAction _) = ''current_action''"
| "key (Response _) = ''response''"
| "key (Error _) = ''error''"
| "key (SearchQuery _) = ''search_query''"
| "key (Location _) = ''location''"
| "key (JobsFound _) = ''jobs_found''"
| "key (SelectedJobIndex _) = ''selected_job_index''"
| "key (SelectedJob _) = ''selected_job''"
| "key (CustomizedResume _) = ''customized_resume''"
| "key (CoverLetter _) = ''cover_letter''"
| "key (ComposedPdfPath _) = ''composed_pdf_path''"
| "key (SheetsExported _) = ''sheets_exported''"
| "key (SheetsUrl _) = ''sheets_url''"

definition keys :: "delta \<Rightarrow> string list" where
  "keys d = map key d"

fun apply_upd :: "upd \<Rightarrow> state \<Rightarrow> state" where
  "apply_upd (CurrentAction a) s = s\<lparr>current_action := a\<rparr>"
| "apply_upd (Response r) s = s\<lparr>response := r\<rparr>"
| "apply_upd (Error e) s = s\<lparr>error := e\<rparr>"
| "apply_upd (SearchQuery q) s = s\<lparr>search_query := Some q\<rparr>"
| "apply_upd (Location l) s = s\<lparr>location := Some l\<rparr>"
| "apply_upd (JobsFound js) s = s\<lparr>jobs_found := js\<rparr>"
| "apply_upd (SelectedJobIndex i) s = s\<lparr>selected_job_index := Some i\<rparr>"
| "apply_upd (SelectedJob j) s = s\<lparr>selected_job := Some j\<rparr>"
| "apply_upd (CustomizedResume t) s = s\<lparr>customized_resume := Some t\<rparr>"
| "apply_upd (CoverLetter t) s = s\<lparr>cover_letter := Some t\<rparr>"
| "apply_upd (ComposedPdfPath p) s = s\<lparr>composed_pdf_path := Some p\<rparr>"
| "apply_upd (SheetsExported b) s = s\<lparr>sheets_exported := b\<rparr>"
| "apply_upd (SheetsUrl u) s = s\<lparr>sheets_url := Some u\<rparr>"

definition merge :: "state \<Rightarrow> delta \<Rightarrow> state" where
  "merge s d = fold apply_upd d s"

section \<open>The router\<close>

definition HELP_MESSAGE :: string where
  "HELP_MESSAGE = robot @ '' **Job Agent Bot Commands**\<newline>\<newline>**/search `<keywords>` `<location>`**\<newline>Search for jobs. Example: `/search python developer remote`\<newline>\<newline>**/customize `<job_number>`**\<newline>Customize your resume for a specific job from search results.\<newline>Example: `/customize 1`\<newline>\<newline>**/compose**\<newline>Compose your customized resume and cover letter into a professional PDF for download.\<newline>\<newline>**/export**\<newline>Export all found jobs to your Google Sheet.\<newline>\<newline>**/more**\<newline>Find more jobs from other platforms (Remotive, etc.) based on your last search.\<newline>\<newline>**/resume**\<newline>Upload a new resume (send as file after this command).\<newline>\<newline>**/chat `<any message>`**\<newline>Chat with me! Ask for job suggestions, career advice, or why you should apply to certain jobs.\<newline>\<newline>**/help**\<newline>Show this help message.\<newline>\<newline>---\<newline>'' @ bulb @ '' **Quick Start:**\<newline>1. Upload your resume with /resume\<newline>2. Search jobs with /search\<newline>3. Pick a job number to customize your resume\<newline>4. Compose your professional PDF with /compose\<newline>5. Export all jobs to Google Sheets with /export\<newline>''"

definition START_MESSAGE :: string where
  "START_MESSAGE = wave @ '' **Welcome to Job Agent Bot!**\<newline>\<newline>I help you find jobs, customize your resume, and track applications.\<newline>\<newline>**Before we start:**\<newline>1. Make sure your `.env` file has all API keys configured\<newline>2. Upload your base resume using /resume\<newline>\<newline>Use /help to see all available commands.\<newline>\<newline>'' @ rocket @ '' Ready when you are!\<newline>''"

definition location_keywords :: "string list" where
  "location_keywords = [''remote'', ''hybrid'', ''onsite'']"

text \<open>The \<open>/search\<close> branch of the router, on the trimmed and lower-cased text.\<close>

definition route_search :: "string \<Rightarrow> delta" where
  "route_search text =
     (let parts = split (strip (remove_all ''/search'' text)) in
      if length parts < 1 then
        [CurrentAction ''help'',
         Response (cross_mark @ '' Usage: /search `<keywords>` `<location>`\<newline>Example: /search python developer remote'')]
      else if lower (last parts) \<in> set location_keywords \<or> length parts > 2 then
        [CurrentAction ''search'', SearchQuery (join '' '' (butlast parts)), Location (last parts)]
      else
        [CurrentAction ''search'', SearchQuery (join '' '' parts), Location ''remote''])"

text \<open>The \<open>/customize\<close> branch.\<close>

definition route_customize :: "string \<Rightarrow> delta" where
  "route_customize text =
     (let parts = split (strip (remove_all ''/customize'' text)) in
      if length parts < 1 then
        [CurrentAction ''help'',
         Response (cross_mark @ '' Usage: /customize `<job_number>`\<newline>Example: /customize 1'')]
      else
        (case py_int (hd parts) of
           Some n \<Rightarrow> [CurrentAction ''customize'', SelectedJobIndex (n - 1)]
         | None \<Rightarrow>
             [CurrentAction ''help'',
              Response (cross_mark @ '' Please provide a valid job number.\<newline>Example: /customize 1'')]))"

definition router_node :: "state \<Rightarrow> delta" where
  "router_node s =
     (if messages s = [] then [CurrentAction ''help'', Response HELP_MESSAGE]
      else
        let text = lower (strip (last (messages s))) in
        if startswith text ''/start'' then [CurrentAction ''start'', Response START_MESSAGE]
        else if startswith text ''/help'' then [CurrentAction ''help'', Response HELP_MESSAGE]
        else if startswith text ''/search'' then route_search text
        else if startswith text ''/customize'' then route_customize text
        else if startswith text ''/export'' then [CurrentAction ''export'']
        else if startswith text ''/resume'' then
          [CurrentAction ''help'',
           Response (page @ '' Please send your resume file (PDF, DOCX, or TXT) as a reply to this message.'')]
        else if startswith text ''/chat'' then [CurrentAction ''chat'']
        else if startswith text ''/more'' then [CurrentAction ''more'']
        else if startswith text ''/compose'' then [CurrentAction ''compose'']
        else
          (case py_int text of
             Some n \<Rightarrow> [CurrentAction ''customize'', SelectedJobIndex (n - 1)]
           | None \<Rightarrow> [CurrentAction ''chat'']))"



section \<open>Collaborators\<close>

text \<open>
  An exception a handler catches is the text \<open>str(e)\<close>, on the left of a sum. A fault that
  no handler catches leaves the node; it is a value of \<open>fault\<close>.
\<close>

datatype fault = TypeError | KeyError | IndexError

text \<open>What \<open>JoobleAPI.search_jobs\<close> returns: the keys \<open>jobs\<close>, \<open>totalCount\<close> and, on failure, \<open>error\<close>.\<close>

record search_result =
  res_jobs :: "job list"
  res_totalCount :: nat
  res_error :: "string option"

record llm =
  customize_resume :: "string \<Rightarrow> string \<Rightarrow> string + string"
  generate_cover_letter :: "string \<Rightarrow> string \<Rightarrow> string option \<Rightarrow> string + string"
  chat :: "string list \<Rightarrow> string \<Rightarrow> string + string"

record sheets_writer =
  writer_error :: "string option"
  writer_client :: bool
  add_jobs_batch :: "job list \<Rightarrow> string + int"
  get_sheet_url :: "string + string"

text \<open>An HTTP request raises, or answers with a status code and a decoded payload.\<close>

datatype 'a http = Raised | Status nat 'a

record remotive_job =
  r_title :: field
  r_company_name :: field
  r_salary :: field
  r_url :: field
  r_publication_date :: field

record google_item =
  item_title :: field
  item_link :: field
  item_snippet :: field

text \<open>
  The world a turn runs in. \<open>recent\<close> stands for parsing a publication date and comparing
  it with the clock: \<open>None\<close> when the date does not parse, else whether it lies within the
  last three days.
\<close>

record env =
  search_jobs :: "string \<Rightarrow> string option \<Rightarrow> search_result"
  GroqLLM :: "string + llm"
  compose_docs :: "state \<Rightarrow> string + string"
  path_exists :: "string \<Rightarrow> bool"
  SheetsWriter :: "string + sheets_writer"
  expand_query :: "string \<Rightarrow> string list"
  remotive_get :: "string \<Rightarrow> remotive_job list http"
  recent :: "string \<Rightarrow> bool option"
  google_configured :: bool
  google_get :: "string \<Rightarrow> string option \<Rightarrow> google_item list http"

text \<open>The value stored under a key.\<close>

fun to_field :: "string option \<Rightarrow> field" where
  "to_field None = Null"
| "to_field (Some s) = Str s"

text \<open>\<open>not x\<close> for an optional text: \<open>None\<close> and the empty text are false.\<close>

fun falsy :: "string option \<Rightarrow> bool" where
  "falsy None = True"
| "falsy (Some s) = (s = [])"

section \<open>The search handler\<close>

definition format_job :: "job \<Rightarrow> nat \<Rightarrow> fault + string" where
  "format_job j index =
     (case get_or (snippet j) [] of
        None \<Rightarrow> Inl TypeError
      | Some sn \<Rightarrow>
          Inr (str_nat index @ ''. '' @ fmt (get_or (title j) ''Unknown Title'') @ ''\<newline>'' @
               office @ '' '' @ fmt (get_or (company j) ''Unknown Company'') @ ''\<newline>'' @
               pin @ '' '' @ fmt (get_or (job_location j) ''Unknown Location'') @ ''\<newline>'' @
               money_bag @ '' '' @ fmt (get_or (salary j) ''Not specified'') @ ''\<newline>'' @
               memo @ '' '' @ take 150 sn @ ''...\<newline>'' @
               link_sign @ '' '' @ fmt (get_or (link j) []) @ ''\<newline>''))"

fun format_jobs :: "job list \<Rightarrow> nat \<Rightarrow> fault + string" where
  "format_jobs [] i = Inr []"
| "format_jobs (j # js) i =
     (case format_job j i of
        Inl f \<Rightarrow> Inl f
      | Inr t \<Rightarrow> (case format_jobs js (Suc i) of Inl f \<Rightarrow> Inl f | Inr r \<Rightarrow> Inr (t @ ''\<newline>'' @ r)))"

definition job_search_node :: "env \<Rightarrow> state \<Rightarrow> fault + delta" where
  "job_search_node env s =
     (case search_query s of
        None \<Rightarrow>
          Inr [Response (cross_mark @ '' Please provide search keywords.\<newline>Example: /search python developer remote''),
               Error (Some ''No search query provided'')]
      | Some query \<Rightarrow>
          if query = [] then
            Inr [Response (cross_mark @ '' Please provide search keywords.\<newline>Example: /search python developer remote''),
                 Error (Some ''No search query provided'')]
          else
            let result = search_jobs env query (location s) in
            (case res_error result of
               Some e \<Rightarrow> Inr [Response (cross_mark @ '' Search failed: '' @ e), Error (Some e), JobsFound []]
             | None \<Rightarrow>
                 let jobs = res_jobs result; total = res_totalCount result in
                 if jobs = [] then
                   Inr [Response (magnifier @ '' No jobs found for '' @ [CHR 0x27] @ query @ [CHR 0x27] @ '' in ''
                                  @ [CHR 0x27] @ fmt (location s) @ [CHR 0x27]
                                  @ ''.\<newline>Try different keywords or location.''),
                        JobsFound [], Error None]
                 else
                   (case format_jobs (take 10 jobs) 1 of
                      Inl f \<Rightarrow> Inl f
                    | Inr listing \<Rightarrow>
                        Inr [JobsFound (take 10 jobs),
                             Response (magnifier @ '' *Found '' @ str_nat total
                                       @ '' recent jobs (last 3 days) for '' @ [CHR 0x27] @ query @ [CHR 0x27]
                                       @ '' in '' @ [CHR 0x27] @ fmt (location s) @ [CHR 0x27] @ '':*\<newline>\<newline>''
                                       @ listing
                                       @ ''\<newline>'' @ bulb @ '' Reply with /customize <number> to customize your resume for a job.''),
                             Error None])))"

section \<open>The customize handler\<close>

text \<open>\<open>xs[i]\<close>: a negative index counts from the end, an index out of range raises.\<close>

definition getitem :: "'a list \<Rightarrow> int \<Rightarrow> fault + 'a" where
  "getitem xs i =
     (let n = int (length xs); k = (if i < 0 then n + i else i)
      in if 0 \<le> k \<and> k < n then Inr (xs ! nat k) else Inl IndexError)"

definition job_desc :: "job \<Rightarrow> string" where
  "job_desc j =
     ''\<newline>Title: '' @ fmt (get_or (title j) []) @
     ''\<newline>Company: '' @ fmt (get_or (company j) []) @
     ''\<newline>Location: '' @ fmt (get_or (job_location j) []) @
     ''\<newline>Description: '' @ fmt (get_or (snippet j) []) @ ''\<newline>''"

text \<open>The body of the \<open>try\<close> block: the two generator calls and the reply.\<close>

definition generate_documents :: "env \<Rightarrow> string \<Rightarrow> job \<Rightarrow> string + delta" where
  "generate_documents env resume j =
     (case GroqLLM env of
        Inl e \<Rightarrow> Inl e
      | Inr l \<Rightarrow>
          (case customize_resume l resume (job_desc j) of
             Inl e \<Rightarrow> Inl e
           | Inr customized \<Rightarrow>
               (case generate_cover_letter l resume (job_desc j) (get_or (company j) ''the company'') of
                  Inl e \<Rightarrow> Inl e
                | Inr letter \<Rightarrow>
                    Inr [SelectedJob j, CustomizedResume customized, CoverLetter letter,
                         Response (check_mark @ '' *Documents Generated for '' @ fmt (get_or (title j) ''Unknown'')
                                   @ '' at '' @ fmt (get_or (company j) ''Unknown'') @ ''*\<newline>\<newline>''
                                   @ page @ '' *Customized Resume:*\<newline>'' @ take 2000 customized @ ''...\<newline>\<newline>''
                                   @ memo @ '' *Cover Letter:*\<newline>'' @ take 1500 letter @ ''...\<newline>\<newline>''
                                   @ bulb @ '' Use /export to save all jobs to Google Sheets.\<newline>''
                                   @ link_sign @ '' Apply here: '' @ fmt (get_or (link j) ''N/A'') @ ''\<newline>''),
                         Error None])))"

text \<open>
  The block under \<open># Validate inputs\<close>: an early return with its reply, or the index and
  the resume the rest of the handler works with.
\<close>

definition no_resume :: delta where
  "no_resume =
     [Response (cross_mark @ '' No resume uploaded. Please send your resume file first with /resume.''),
      Error (Some ''No resume'')]"

definition validate_inputs :: "state \<Rightarrow> delta + int \<times> string" where
  "validate_inputs s =
     (let jobs = jobs_found s; resume = base_resume s in
      case selected_job_index s of
        None \<Rightarrow>
          Inl [Response (cross_mark @ '' No job selected. Use /customize <number> after searching.''),
               Error (Some ''No job selected'')]
      | Some job_index \<Rightarrow>
          if jobs = [] then
            Inl [Response (cross_mark @ '' No jobs in search results. Use /search first.''),
                 Error (Some ''No jobs found'')]
          else if job_index < 0 \<or> job_index \<ge> int (length jobs) then
            Inl [Response (cross_mark @ '' Invalid job number. Please choose 1-'' @ str_nat (length jobs) @ ''.''),
                 Error (Some ''Invalid job index'')]
          else
            (case resume of
               None \<Rightarrow> Inl no_resume
             | Some text \<Rightarrow> if text = [] then Inl no_resume else Inr (job_index, text)))"

definition customizer_node :: "env \<Rightarrow> state \<Rightarrow> fault + delta" where
  "customizer_node env s =
     (case validate_inputs s of
        Inl d \<Rightarrow> Inr d
      | Inr (job_index, resume) \<Rightarrow>
          (case getitem (jobs_found s) job_index of
             Inl f \<Rightarrow> Inl f
           | Inr selected \<Rightarrow>
               (case generate_documents env resume selected of
                  Inr d \<Rightarrow> Inr d
                | Inl e \<Rightarrow>
                    Inr [Response (cross_mark @ '' Error generating documents: '' @ e), Error (Some e)])))"

section \<open>The compose handler\<close>

definition composer_node :: "env \<Rightarrow> state \<Rightarrow> delta" where
  "composer_node env s =
     (if falsy (customized_resume s) \<or> falsy (cover_letter s) then
        [Response (cross_mark @ '' No customized resume or cover letter found. Please use /customize first.''),
         Error (Some ''Missing documents for composition'')]
      else
        (case compose_docs env s of
           Inl e \<Rightarrow> [Response (cross_mark @ '' Error composing document: '' @ e), Error (Some e)]
         | Inr pdf_path \<Rightarrow>
             if path_exists env pdf_path then
               [ComposedPdfPath pdf_path,
                Response (sparkles @ '' **Professional Job Application Composed!**\<newline>\<newline>I've combined your customized resume and cover letter into a well-managed PDF. Sending the file to you now...''),
                Error None]
             else
               [Response (cross_mark @ '' Failed to generate PDF document.''), Error (Some ''File not created'')]))"

section \<open>The export handler\<close>

definition export_jobs :: "sheets_writer \<Rightarrow> job list \<Rightarrow> string + delta" where
  "export_jobs writer jobs =
     (case add_jobs_batch writer jobs of
        Inl e \<Rightarrow> Inl e
      | Inr count \<Rightarrow>
          (case get_sheet_url writer of
             Inl e \<Rightarrow> Inl e
           | Inr sheet_url \<Rightarrow>
               if count > 0 then
                 Inr [SheetsExported True, SheetsUrl sheet_url,
                      Response (check_mark @ '' **Exported '' @ str_int count @ '' jobs to Google Sheets!**\<newline>\<newline>''
                                @ bar_chart @ '' [Open your spreadsheet]('' @ sheet_url @ '')\<newline>\<newline>''
                                @ bulb @ '' Data was inserted at the top of the sheet (Row 2). \<newline>If it's not appearing, please check for a tab named **'Jobs'** at the bottom.\<newline>''),
                      Error None]
               else
                 Inr [Response (cross_mark @ '' Failed to export jobs. Found '' @ str_nat (length jobs)
                                @ '' jobs in session, but could not write to sheet. Check your Google Sheets permissions and tab name ('Jobs').''),
                      Error (Some ''Export failed'')]))"

definition export_error :: "string \<Rightarrow> delta" where
  "export_error e =
     [Response (cross_mark @ '' Export error: '' @ e
                @ ''\<newline>\<newline>Please ensure your Google Sheet is shared as 'Editor' with the service account email.''),
      Error (Some e)]"

definition exporter_node :: "env \<Rightarrow> state \<Rightarrow> delta" where
  "exporter_node env s =
     (let jobs = jobs_found s in
      if jobs = [] then
        [Response (cross_mark @ '' No jobs to export. Use /search first to find jobs.''),
         Error (Some ''No jobs to export'')]
      else
        (case SheetsWriter env of
           Inl e \<Rightarrow> export_error e
         | Inr writer \<Rightarrow>
             if \<not> falsy (writer_error writer) then
               [Response (cross_mark @ '' Google Sheets error: '' @ fmt (writer_error writer)
                          @ ''\<newline>\<newline>'' @ bulb
                          @ '' Ensure your sheet is shared as 'Editor' with the service account email or 'Anyone with the link: Editor'.''),
                Error (writer_error writer)]
             else if \<not> writer_client writer then
               [Response (cross_mark @ '' Google Sheets client not initialized. Check your credentials.''),
                Error (Some ''Sheets not initialized'')]
             else
               (case export_jobs writer jobs of Inr d \<Rightarrow> d | Inl e \<Rightarrow> export_error e)))"

section \<open>The chat handler\<close>

fun found_jobs_lines :: "job list \<Rightarrow> nat \<Rightarrow> string" where
  "found_jobs_lines [] i = []"
| "found_jobs_lines (j # js) i =
     str_nat i @ ''. '' @ fmt (get (title j)) @ '' at '' @ fmt (get (company j))
     @ '' ('' @ fmt (get (job_location j)) @ '')\<newline>'' @ found_jobs_lines js (Suc i)"

definition chat_context :: "state \<Rightarrow> string" where
  "chat_context s =
     ''Candidate's Resume:\<newline>'' @ fmt (base_resume s) @ ''\<newline>\<newline>'' @
     (if jobs_found s \<noteq> [] then ''Found Jobs:\<newline>'' @ found_jobs_lines (jobs_found s) 1
      else ''No jobs currently found in the session.'')"

definition chat_node :: "env \<Rightarrow> state \<Rightarrow> delta" where
  "chat_node env s =
     (case GroqLLM env of
        Inl e \<Rightarrow> [Response (cross_mark @ '' Error in chat: '' @ e), Error (Some e)]
      | Inr l \<Rightarrow>
          (case chat l (messages s) (chat_context s) of
             Inl e \<Rightarrow> [Response (cross_mark @ '' Error in chat: '' @ e), Error (Some e)]
           | Inr reply \<Rightarrow> [Response reply, Error None]))"

section \<open>The fetch-more handler\<close>

text \<open>\<open>ExtraJobsAPI.search_remotive\<close> with its default limit of ten.\<close>

definition remotive_entry :: "remotive_job \<Rightarrow> job" where
  "remotive_entry r =
     \<lparr>title = to_field (get (r_title r)), company = to_field (get (r_company_name r)),
      job_location = Str ''Remote'', salary = to_field (get_or (r_salary r) ''Not specified''),
      link = to_field (get (r_url r)), source = Str ''Remotive'', snippet = Absent\<rparr>"

text \<open>
  Whether the loop appends a job: it has a publication date, and the date is within the
  last three days or does not parse.
\<close>

definition appended :: "(string \<Rightarrow> bool option) \<Rightarrow> remotive_job \<Rightarrow> bool" where
  "appended rc r =
     (case get (r_publication_date r) of
        None \<Rightarrow> False
      | Some pub_date_str \<Rightarrow>
          pub_date_str \<noteq> [] \<and>
          (case rc (remove_all ''Z'' pub_date_str) of None \<Rightarrow> True | Some within \<Rightarrow> within))"

fun recent_jobs_loop :: "(string \<Rightarrow> bool option) \<Rightarrow> nat \<Rightarrow> remotive_job list \<Rightarrow> job list \<Rightarrow> job list" where
  "recent_jobs_loop rc limit [] recent_jobs = recent_jobs"
| "recent_jobs_loop rc limit (r # rs) recent_jobs =
     (let recent_jobs' = (if appended rc r then recent_jobs @ [remotive_entry r] else recent_jobs)
      in if length recent_jobs' \<ge> limit then recent_jobs'
         else recent_jobs_loop rc limit rs recent_jobs')"

definition search_remotive :: "env \<Rightarrow> string \<Rightarrow> job list" where
  "search_remotive env keywords =
     (case remotive_get env keywords of
        Raised \<Rightarrow> []
      | Status code jobs \<Rightarrow> if code = 200 then recent_jobs_loop (recent env) 10 jobs [] else [])"

text \<open>\<open>s.split(sep)\<close> for a one-character separator.\<close>

fun split_on :: "char \<Rightarrow> string \<Rightarrow> string list" where
  "split_on sep [] = [[]]"
| "split_on sep (c # cs) =
     (case split_on sep cs of
        [] \<Rightarrow> [[c]]
      | p # ps \<Rightarrow> if c = sep then [] # p # ps else (c # p) # ps)"

text \<open>
  \<open>GoogleSearchAPI.search_jobs\<close>. A title holding \<open>None\<close> makes \<open>split\<close> raise inside the
  \<open>try\<close> block, and the adapter answers with the empty list: that is \<open>None\<close> here.
\<close>

fun google_jobs :: "string option \<Rightarrow> google_item list \<Rightarrow> job list option" where
  "google_jobs loc [] = Some []"
| "google_jobs loc (item # items) =
     (case get_or (item_title item) ''Unknown Job'' of
        None \<Rightarrow> None
      | Some title_raw \<Rightarrow>
          let title_parts = map strip (split_on (CHR ''|'') title_raw);
              entry = \<lparr>title = Str (if length title_parts > 0 then hd title_parts else ''Unknown Job''),
                       company = Str (if length title_parts > 1 then title_parts ! 1 else ''Unknown Company''),
                       job_location = to_field loc, salary = Str ''Check listing'',
                       link = to_field (get (item_link item)), source = Str ''LinkedIn (Google)'',
                       snippet = to_field (get_or (item_snippet item) [])\<rparr>
          in (case google_jobs loc items of None \<Rightarrow> None | Some jobs \<Rightarrow> Some (entry # jobs)))"

definition search_google :: "env \<Rightarrow> string \<Rightarrow> string option \<Rightarrow> job list" where
  "search_google env keywords loc =
     (if \<not> google_configured env then []
      else
        (case google_get env keywords loc of
           Raised \<Rightarrow> []
         | Status code items \<Rightarrow>
             if code = 200 then (case google_jobs loc items of None \<Rightarrow> [] | Some jobs \<Rightarrow> jobs) else []))"

text \<open>The fallback that looks through the messages, latest first, for a search command.\<close>

fun recover_query :: "string list \<Rightarrow> string option" where
  "recover_query [] = None"
| "recover_query (content # earlier) =
     (if startswith content ''/search'' then
        (let parts = split (strip (remove_all ''/search'' content)) in
         if parts \<noteq> [] then Some (if length parts > 1 then join '' '' (butlast parts) else hd parts)
         else recover_query earlier)
      else recover_query earlier)"

text \<open>The loop over the Remotive jobs: every job with an unseen link is appended.\<close>

fun add_unseen :: "job list \<Rightarrow> job list \<times> string option set \<Rightarrow> job list \<times> string option set" where
  "add_unseen [] (all_extra_jobs, seen_links) = (all_extra_jobs, seen_links)"
| "add_unseen (j # js) (all_extra_jobs, seen_links) =
     (if get (link j) \<notin> seen_links
      then add_unseen js (all_extra_jobs @ [j], insert (get (link j)) seen_links)
      else add_unseen js (all_extra_jobs, seen_links))"

text \<open>The inner loop over one Google result, left at twenty accumulated jobs.\<close>

fun add_unseen_capped :: "job list \<Rightarrow> job list \<times> string option set \<Rightarrow> job list \<times> string option set" where
  "add_unseen_capped [] (all_extra_jobs, seen_links) = (all_extra_jobs, seen_links)"
| "add_unseen_capped (j # js) (all_extra_jobs, seen_links) =
     (if get (link j) \<notin> seen_links then
        (if length (all_extra_jobs @ [j]) \<ge> 20
         then (all_extra_jobs @ [j], insert (get (link j)) seen_links)
         else add_unseen_capped js (all_extra_jobs @ [j], insert (get (link j)) seen_links))
      else add_unseen_capped js (all_extra_jobs, seen_links))"

text \<open>
  The outer loop over the variations, left at fifteen accumulated jobs. The third
  component lists the variations a search was issued for, in order.
\<close>

fun variety_search ::
  "(string \<Rightarrow> job list) \<Rightarrow> string list \<Rightarrow> job list \<times> string option set \<times> string list
   \<Rightarrow> job list \<times> string option set \<times> string list" where
  "variety_search g [] (all_extra_jobs, seen_links, issued) = (all_extra_jobs, seen_links, issued)"
| "variety_search g (var # vars) (all_extra_jobs, seen_links, issued) =
     (if length all_extra_jobs \<ge> 15 then (all_extra_jobs, seen_links, issued)
      else
        (case add_unseen_capped (g var) (all_extra_jobs, seen_links) of
           (all_extra_jobs', seen_links') \<Rightarrow>
             variety_search g vars (all_extra_jobs', seen_links', issued @ [var])))"

definition collect_extra :: "env \<Rightarrow> state \<Rightarrow> string \<Rightarrow> job list \<times> string option set \<times> string list" where
  "collect_extra env s query =
     (case add_unseen (search_remotive env query) ([], set (map (\<lambda>j. get (link j)) (jobs_found s))) of
        (all_extra_jobs, seen_links) \<Rightarrow>
          variety_search (\<lambda>var. search_google env var (location s)) (expand_query env query)
            (all_extra_jobs, seen_links, []))"

text \<open>\<open>d[k]\<close>: a missing key raises.\<close>

fun subscript :: "field \<Rightarrow> fault + string option" where
  "subscript Absent = Inl KeyError"
| "subscript Null = Inr None"
| "subscript (Str s) = Inr (Some s)"

text \<open>The keys the reply reads by subscript are present.\<close>

definition has_keys :: "job \<Rightarrow> bool" where
  "has_keys j = (title j \<noteq> Absent \<and> company j \<noteq> Absent \<and> link j \<noteq> Absent)"

definition format_extra_job :: "job \<Rightarrow> nat \<Rightarrow> fault + string" where
  "format_extra_job j i =
     (case subscript (title j) of
        Inl f \<Rightarrow> Inl f
      | Inr t \<Rightarrow>
          (case subscript (company j) of
             Inl f \<Rightarrow> Inl f
           | Inr c \<Rightarrow>
               (case subscript (link j) of
                  Inl f \<Rightarrow> Inl f
                | Inr l \<Rightarrow>
                    Inr (str_nat i @ ''. '' @ fmt t @ ''\<newline>''
                         @ office @ '' '' @ fmt c @ '' (via '' @ fmt (get_or (source j) ''Other'') @ '')\<newline>''
                         @ money_bag @ '' '' @ fmt (get_or (salary j) ''Not specified'') @ ''\<newline>''
                         @ link_sign @ '' '' @ fmt l @ ''\<newline>\<newline>''))))"

fun format_extra_jobs :: "job list \<Rightarrow> nat \<Rightarrow> fault + string" where
  "format_extra_jobs [] i = Inr []"
| "format_extra_jobs (j # js) i =
     (case format_extra_job j i of
        Inl f \<Rightarrow> Inl f
      | Inr t \<Rightarrow> (case format_extra_jobs js (Suc i) of Inl f \<Rightarrow> Inl f | Inr r \<Rightarrow> Inr (t @ r)))"

definition no_query :: delta where
  "no_query =
     [Response (cross_mark @ '' No previous search found. Please use /search first.''),
      Error (Some ''No query found for more jobs'')]"

definition more_jobs_with :: "env \<Rightarrow> state \<Rightarrow> string \<Rightarrow> fault + delta" where
  "more_jobs_with env s query =
     (case collect_extra env s query of
        (all_extra_jobs, seen_links, issued) \<Rightarrow>
          if all_extra_jobs = [] then
            Inr [Response (magnifier @ '' No additional recent jobs found for '' @ [CHR 0x27] @ query @ [CHR 0x27]
                           @ '' or related fields.''),
                 Error None]
          else
            let current_jobs = jobs_found s;
                start_index = length current_jobs + 1;
                updated_jobs = current_jobs @ all_extra_jobs;
                variations_str = join '', '' (take 3 (drop 1 (expand_query env query)))
            in (case format_extra_jobs all_extra_jobs start_index of
                  Inl f \<Rightarrow> Inl f
                | Inr listing \<Rightarrow>
                    Inr [JobsFound updated_jobs,
                         Response (rocket @ '' **Smart Variety Search for '' @ [CHR 0x27] @ query @ [CHR 0x27] @ '':**\<newline>''
                                   @ bulb @ '' Also searched for: _'' @ variations_str @ ''_\<newline>\<newline>''
                                   @ listing
                                   @ check_mark @ '' Found '' @ str_nat (length all_extra_jobs)
                                   @ '' extra jobs! Use /customize <number> to pick one.''),
                         Error None]))"

definition more_jobs_node :: "env \<Rightarrow> state \<Rightarrow> fault + delta" where
  "more_jobs_node env s =
     (let query =
        (if falsy (search_query s)
         then (case recover_query (rev (messages s)) of None \<Rightarrow> search_query s | Some q \<Rightarrow> Some q)
         else search_query s)
      in case query of
           None \<Rightarrow> Inr no_query
         | Some q \<Rightarrow> if q = [] then Inr no_query else more_jobs_with env s q)"

section \<open>The graph\<close>

definition END :: string where
  "END = ''__end__''"

definition route_action :: "state \<Rightarrow> string" where
  "route_action s =
     (let action = current_action s in
      if action = ''search'' then ''job_search''
      else if action = ''customize'' then ''customizer''
      else if action = ''export'' then ''exporter''
      else if action = ''chat'' then ''chat''
      else if action = ''more'' then ''more''
      else if action = ''compose'' then ''composer''
      else if action = ''help'' then END
      else if action = ''start'' then END
      else END)"

fun run_node :: "state \<Rightarrow> fault + delta \<Rightarrow> fault + state" where
  "run_node s (Inl f) = Inl f"
| "run_node s (Inr d) = Inr (merge s d)"

text \<open>
  One pass through the compiled graph: the router, the merge of its result, the edge
  chosen by \<open>route_action\<close>, the node at its end, the merge of that node's result.
\<close>

definition job_agent_invoke :: "env \<Rightarrow> state \<Rightarrow> fault + state" where
  "job_agent_invoke env s0 =
     (let s = merge s0 (router_node s0); nxt = route_action s in
      if nxt = ''job_search'' then run_node s (job_search_node env s)
      else if nxt = ''customizer'' then run_node s (customizer_node env s)
      else if nxt = ''exporter'' then run_node s (Inr (exporter_node env s))
      else if nxt = ''chat'' then run_node s (Inr (chat_node env s))
      else if nxt = ''more'' then run_node s (more_jobs_node env s)
      else if nxt = ''composer'' then run_node s (Inr (composer_node env s))
      else Inr s)"

section \<open>The transport handlers\<close>

text \<open>\<open>range(0, n, step)\<close> and the slice \<open>xs[i:j]\<close> for \<open>0 \<le> i \<le> j\<close>.\<close>

definition range_step :: "nat \<Rightarrow> nat \<Rightarrow> nat list" where
  "range_step n step = map (\<lambda>k. k * step) [0..<(n + step - 1) div step]"

definition slice :: "'a list \<Rightarrow> nat \<Rightarrow> nat \<Rightarrow> 'a list" where
  "slice xs i j = take (j - i) (drop i xs)"

definition chunks :: "'a list \<Rightarrow> 'a list list" where
  "chunks resp = map (\<lambda>i. slice resp i (i + 4000)) (range_step (length resp) 4000)"

text \<open>The texts sent for one reply, in order.\<close>

definition reply_texts :: "'a list \<Rightarrow> 'a list list" where
  "reply_texts resp = (if length resp > 4000 then chunks resp else [resp])"


definition customize_command :: "env \<Rightarrow> state \<Rightarrow> string \<Rightarrow> fault + state \<times> string list" where
  "customize_command env st command_text =
     (let state = st\<lparr>messages := [command_text]\<rparr> in
      case job_agent_invoke env state of
        Inl f \<Rightarrow> Inl f
      | Inr result \<Rightarrow>
          Inr (if \<not> falsy (customized_resume result)
               then state\<lparr>customized_resume := customized_resume result,
                          cover_letter := cover_letter result, selected_job := selected_job result\<rparr>
               else state,
               reply_texts (response result)))"

definition more_command :: "env \<Rightarrow> state \<Rightarrow> fault + state \<times> string list" where
  "more_command env st =
     (let state = st\<lparr>messages := messages st @ [''/more'']\<rparr> in
      case job_agent_invoke env state of
        Inl f \<Rightarrow> Inl f
      | Inr result \<Rightarrow>
          Inr (state\<lparr>jobs_found := jobs_found result, search_query := search_query result,
                     location := location result\<rparr>,
               [response result]))"

definition handle_text :: "env \<Rightarrow> state \<Rightarrow> string \<Rightarrow> fault + state \<times> string list" where
  "handle_text env st message_text =
     (if message_text = [] then Inr (st, [])
      else
        let text = strip message_text in
        case py_int text of
          Some job_num \<Rightarrow>
            (let state = st\<lparr>messages := [''/customize '' @ str_int job_num]\<rparr> in
             case job_agent_invoke env state of
               Inl f \<Rightarrow> Inl f
             | Inr result \<Rightarrow>
                 Inr (if \<not> falsy (customized_resume result)
                      then state\<lparr>customized_resume := customized_resume result,
                                 cover_letter := cover_letter result, jobs_found := jobs_found result,
                                 search_query := search_query result, location := location result\<rparr>
                      else state,
                      reply_texts (response result)))
        | None \<Rightarrow>
            (let state = st\<lparr>messages := messages st @ [text]\<rparr> in
             case job_agent_invoke env state of
               Inl f \<Rightarrow> Inl f
             | Inr result \<Rightarrow>
                 Inr (if messages result \<noteq> []
                      then state\<lparr>messages := messages state @ [last (messages result)]\<rparr>
                      else state,
                      [response result])))"

section \<open>Sample worlds and sessions\<close>

text \<open>A world in which every collaborator fails, and one in which the generator answers.\<close>

definition offline :: env where
  "offline =
     \<lparr>search_jobs = (\<lambda>keywords loc. \<lparr>res_jobs = [], res_totalCount = 0, res_error = Some ''Request failed: timed out''\<rparr>),
      GroqLLM = Inl ''connection refused'',
      compose_docs = (\<lambda>state_data. Inl ''disk full''),
      path_exists = (\<lambda>path. False),
      SheetsWriter = Inl ''no credentials'',
      expand_query = (\<lambda>query. [query]),
      remotive_get = (\<lambda>keywords. Raised),
      recent = (\<lambda>date. None),
      google_configured = False,
      google_get = (\<lambda>keywords loc. Raised)\<rparr>"

definition terse_llm :: llm where
  "terse_llm =
     \<lparr>customize_resume = (\<lambda>resume description. Inr ''Tailored resume''),
      generate_cover_letter = (\<lambda>resume description company_name. Inr []),
      chat = (\<lambda>history context. Inr ''Hello'')\<rparr>"

definition online :: env where
  "online = offline\<lparr>GroqLLM := Inr terse_llm\<rparr>"

definition dup_posting :: remotive_job where
  "dup_posting =
     \<lparr>r_title = Str ''Python Developer'', r_company_name = Str ''Acme'', r_salary = Absent,
      r_url = Str ''https://jobs.example/1'', r_publication_date = Str ''2026-11-03T10:00:00''\<rparr>"

definition new_posting :: remotive_job where
  "new_posting =
     \<lparr>r_title = Str ''Data Engineer'', r_company_name = Str ''Globex'', r_salary = Null,
      r_url = Str ''https://jobs.example/2'', r_publication_date = Str ''2026-11-03T11:00:00Z''\<rparr>"

text \<open>A world in which Remotive answers with three postings, two of them with one link.\<close>

definition boards :: env where
  "boards = offline\<lparr>remotive_get := (\<lambda>keywords. Status 200 [dup_posting, new_posting, new_posting]),
                    recent := (\<lambda>date. Some True)\<rparr>"

text \<open>A world in which every Google search answers with thirty postings under thirty links.\<close>

definition crowded :: env where
  "crowded =
     offline\<lparr>expand_query := (\<lambda>query. [query, ''data engineer'']),
             google_configured := True,
             google_get := (\<lambda>keywords loc. Status 200
               (map (\<lambda>n. \<lparr>item_title = Str ''Engineer | Initech'',
                             item_link = Str (''https://l.example/'' @ str_nat n),
                             item_snippet = Absent\<rparr>) [0..<30]))\<rparr>"

definition sample_job :: job where
  "sample_job =
     \<lparr>title = Str ''Python Developer'', company = Str ''Acme'', job_location = Str ''Remote'',
      salary = Absent, link = Str ''https://jobs.example/1'', source = Absent, snippet = Str ''Build things''\<rparr>"

definition fresh :: state where
  "fresh = create_initial_state ''42''"

definition searched :: state where
  "searched = fresh\<lparr>base_resume := Some ''My resume'', search_query := Some ''python'',
                     location := Some ''remote'', jobs_found := [sample_job]\<rparr>"

definition picked :: state where
  "picked = searched\<lparr>selected_job_index := Some 0, customized_resume := Some ''Old resume'',
                      cover_letter := Some ''Old letter''\<rparr>"

section \<open>Chunked delivery\<close>







section \<open>The compose handler refuses without documents\<close>

text \<open>
  Claim C6. When the customized resume or the cover letter is absent, the compose handler
  answers with the error that sends the user to \<open>/customize\<close> first; the dictionary it
  returns has no \<open>composed_pdf_path\<close> key, so the merge leaves that field as it was.
\<close>

theorem composer_refuses_without_documents:
  assumes "customized_resume s = None \<or> cover_letter s = None"
  shows "composer_node env s =
           [Response (cross_mark @ '' No customized resume or cover letter found. Please use /customize first.''),
            Error (Some ''Missing documents for composition'')]
       \<and> ''composed_pdf_path'' \<notin> set (keys (composer_node env s))
       \<and> composed_pdf_path (merge s (composer_node env s)) = composed_pdf_path s"
proof -
  have "falsy (customized_resume s) \<or> falsy (cover_letter s)"
    using assms by auto
  then show ?thesis
    by (simp add: composer_node_def keys_def merge_def)
qed

theorem composer_refuses_without_documents_witness:
  "(customized_resume fresh = None \<or> cover_letter fresh = None)
   \<and> composer_node offline fresh =
           [Response (cross_mark @ '' No customized resume or cover letter found. Please use /customize first.''),
            Error (Some ''Missing documents for composition'')]
   \<and> ''composed_pdf_path'' \<notin> set (keys (composer_node offline fresh))
   \<and> composed_pdf_path (merge fresh (composer_node offline fresh)) = composed_pdf_path fresh"
proof -
  have h: "customized_resume fresh = None \<or> cover_letter fresh = None"
    by (simp add: fresh_def create_initial_state_def)
  show ?thesis
    using h composer_refuses_without_documents [OF h, of offline] by blast
qed

section \<open>The customize handler: validation and documents\<close>

lemma getitem_in_range:
  "0 \<le> i \<Longrightarrow> i < int (length xs) \<Longrightarrow> getitem xs i = Inr (xs ! nat i)"
  by (simp add: getitem_def)

lemma validate_inputs_Inr:
  assumes "validate_inputs s = Inr (i, r)"
  shows "selected_job_index s = Some i" "0 \<le> i" "i < int (length (jobs_found s))"
        "base_resume s = Some r" "r \<noteq> []"
  using assms
  by (auto simp: validate_inputs_def Let_def split: option.splits if_splits)

lemma customizer_node_validated:
  assumes "validate_inputs s = Inr (i, r)"
  shows "customizer_node env s =
           (case generate_documents env r (jobs_found s ! nat i) of
              Inr d \<Rightarrow> Inr d
            | Inl e \<Rightarrow> Inr [Response (cross_mark @ '' Error generating documents: '' @ e), Error (Some e)])"
  using assms validate_inputs_Inr(2,3) [OF assms]
  by (simp add: customizer_node_def getitem_in_range)

lemma customizer_node_rejected:
  "validate_inputs s = Inl d \<Longrightarrow> customizer_node env s = Inr d"
  by (simp add: customizer_node_def)

lemma generate_documents_Inr:
  assumes "generate_documents env r j = Inr d"
  shows "\<exists>l cr cl t. GroqLLM env = Inr l \<and> customize_resume l r (job_desc j) = Inr cr
           \<and> generate_cover_letter l r (job_desc j) (get_or (company j) ''the company'') = Inr cl
           \<and> d = [SelectedJob j, CustomizedResume cr, CoverLetter cl, Response t, Error None]"
  using assms
  by (auto simp: generate_documents_def split: sum.splits)

text \<open>
  Claim C2, as the code has it. For a session whose job list is not empty, of length
  \<open>n\<close>: an index in \<open>[0, n-1]\<close> passes the range test, and with a resume present the
  handler goes on to generate the documents for the job at that index; every index
  outside that range is rejected with the invalid-index error, whose reply names the
  range \<open>1-n\<close>. (With an empty job list every index is rejected by the guard before the
  range test, with the no-jobs error.)
\<close>

theorem customizer_index_range:
  assumes "selected_job_index s = Some i" and "jobs_found s \<noteq> []"
  shows "(0 \<le> i \<and> i < int (length (jobs_found s)) \<longrightarrow>
            customizer_node env s =
              (case base_resume s of
                 None \<Rightarrow> Inr no_resume
               | Some r \<Rightarrow>
                   if r = [] then Inr no_resume
                   else (case generate_documents env r (jobs_found s ! nat i) of
                           Inr d \<Rightarrow> Inr d
                         | Inl e \<Rightarrow> Inr [Response (cross_mark @ '' Error generating documents: '' @ e),
                                          Error (Some e)])))
       \<and> (\<not> (0 \<le> i \<and> i < int (length (jobs_found s))) \<longrightarrow>
            customizer_node env s =
              Inr [Response (cross_mark @ '' Invalid job number. Please choose 1-''
                             @ str_nat (length (jobs_found s)) @ ''.''),
                   Error (Some ''Invalid job index'')])"
proof (intro conjI impI)
  assume inr: "0 \<le> i \<and> i < int (length (jobs_found s))"
  show "customizer_node env s =
              (case base_resume s of
                 None \<Rightarrow> Inr no_resume
               | Some r \<Rightarrow>
                   if r = [] then Inr no_resume
                   else (case generate_documents env r (jobs_found s ! nat i) of
                           Inr d \<Rightarrow> Inr d
                         | Inl e \<Rightarrow> Inr [Response (cross_mark @ '' Error generating documents: '' @ e),
                                          Error (Some e)]))"
  proof (cases "base_resume s")
    case None
    then have "validate_inputs s = Inl no_resume"
      using assms inr by (simp add: validate_inputs_def)
    then show ?thesis using None by (simp add: customizer_node_rejected)
  next
    case (Some r)
    show ?thesis
    proof (cases "r = []")
      case True
      then have "validate_inputs s = Inl no_resume"
        using assms inr Some by (simp add: validate_inputs_def)
      then show ?thesis using Some True by (simp add: customizer_node_rejected)
    next
      case False
      then have "validate_inputs s = Inr (i, r)"
        using assms inr Some by (simp add: validate_inputs_def)
      then show ?thesis using Some False by (simp add: customizer_node_validated)
    qed
  qed
next
  assume out: "\<not> (0 \<le> i \<and> i < int (length (jobs_found s)))"
  then have "validate_inputs s =
      Inl [Response (cross_mark @ '' Invalid job number. Please choose 1-''
                             @ str_nat (length (jobs_found s)) @ ''.''),
                   Error (Some ''Invalid job index'')]"
    using assms by (auto simp: validate_inputs_def)
  then show "customizer_node env s =
              Inr [Response (cross_mark @ '' Invalid job number. Please choose 1-''
                             @ str_nat (length (jobs_found s)) @ ''.''),
                   Error (Some ''Invalid job index'')]"
    by (simp add: customizer_node_rejected)
qed

theorem customizer_index_range_witness:
  "selected_job_index (picked\<lparr>selected_job_index := Some 1\<rparr>) = Some 1
   \<and> jobs_found (picked\<lparr>selected_job_index := Some 1\<rparr>) \<noteq> []
   \<and> customizer_node offline (picked\<lparr>selected_job_index := Some 1\<rparr>) =
       Inr [Response (cross_mark @ '' Invalid job number. Please choose 1-1.''), Error (Some ''Invalid job index'')]
   \<and> selected_job_index picked = Some 0 \<and> jobs_found picked \<noteq> []
   \<and> customizer_node offline picked =
       Inr [Response (cross_mark @ '' Error generating documents: connection refused''),
            Error (Some ''connection refused'')]"
proof -
  have a: "selected_job_index (picked\<lparr>selected_job_index := Some 1\<rparr>) = Some 1"
    and b: "jobs_found (picked\<lparr>selected_job_index := Some 1\<rparr>) \<noteq> []"
    and c: "selected_job_index picked = Some 0" and d: "jobs_found picked \<noteq> []"
    by (simp_all add: picked_def searched_def fresh_def create_initial_state_def)
  have one: "str_nat (Suc 0) = ''1''"
    by code_simp
  show ?thesis
    using a b c d customizer_index_range [OF a b, of offline] customizer_index_range [OF c d, of offline]
    by (simp add: picked_def searched_def fresh_def create_initial_state_def one
        generate_documents_def offline_def)
qed

text \<open>
  Claim C2 as stated fails for \<open>n = 0\<close>: with no jobs, index 0 lies outside the empty
  range, yet the rejection is the no-jobs error and its reply does not mention \<open>n\<close>.
\<close>

theorem customizer_empty_jobs_counterexample:
  "jobs_found (fresh\<lparr>selected_job_index := Some 0\<rparr>) = []
   \<and> customizer_node offline (fresh\<lparr>selected_job_index := Some 0\<rparr>) =
       Inr [Response (cross_mark @ '' No jobs in search results. Use /search first.''),
            Error (Some ''No jobs found'')]
   \<and> customizer_node offline (fresh\<lparr>selected_job_index := Some 0\<rparr>) \<noteq>
       Inr [Response (cross_mark @ '' Invalid job number. Please choose 1-''
                      @ str_nat (length (jobs_found (fresh\<lparr>selected_job_index := Some 0\<rparr>))) @ ''.''),
            Error (Some ''Invalid job index'')]"
  by (simp add: customizer_node_def validate_inputs_def fresh_def create_initial_state_def)

text \<open>
  Claim C8, as the code has it. The handler never faults; the dictionary it returns has
  the key \<open>customized_resume\<close> exactly when it has the key \<open>cover_letter\<close>; and when it
  reports success (\<open>error\<close> is \<open>None\<close>) both fields are set, in that one update, to the texts
  the two generator calls returned.
\<close>

theorem customizer_documents_pair:
  "\<exists>d. customizer_node env s = Inr d
      \<and> ((''customized_resume'' \<in> set (keys d)) = (''cover_letter'' \<in> set (keys d)))
      \<and> (Error None \<in> set d \<longrightarrow>
           (\<exists>i resume l cr cl.
              validate_inputs s = Inr (i, resume) \<and> GroqLLM env = Inr l
              \<and> customize_resume l resume (job_desc (jobs_found s ! nat i)) = Inr cr
              \<and> generate_cover_letter l resume (job_desc (jobs_found s ! nat i))
                   (get_or (company (jobs_found s ! nat i)) ''the company'') = Inr cl
              \<and> customized_resume (merge s d) = Some cr \<and> cover_letter (merge s d) = Some cl))"
proof (cases "validate_inputs s")
  case (Inl d)
  then have "customizer_node env s = Inr d" by (rule customizer_node_rejected)
  moreover have "''customized_resume'' \<notin> set (keys d) \<and> ''cover_letter'' \<notin> set (keys d) \<and> Error None \<notin> set d"
    using Inl
    by (auto simp: validate_inputs_def Let_def keys_def no_resume_def split: option.splits if_splits)
  ultimately show ?thesis by auto
next
  case (Inr p)
  obtain i r where p: "p = (i, r)" by (cases p)
  have v: "validate_inputs s = Inr (i, r)" using Inr p by simp
  show ?thesis
  proof (cases "generate_documents env r (jobs_found s ! nat i)")
    case (Inl e)
    then have "customizer_node env s = Inr [Response (cross_mark @ '' Error generating documents: '' @ e), Error (Some e)]"
      using v by (simp add: customizer_node_validated)
    then show ?thesis by (simp add: keys_def)
  next
    case (Inr d)
    then have node: "customizer_node env s = Inr d"
      using v by (simp add: customizer_node_validated)
    from generate_documents_Inr [OF Inr] obtain l cr cl t where g:
      "GroqLLM env = Inr l" "customize_resume l r (job_desc (jobs_found s ! nat i)) = Inr cr"
      "generate_cover_letter l r (job_desc (jobs_found s ! nat i))
         (get_or (company (jobs_found s ! nat i)) ''the company'') = Inr cl"
      "d = [SelectedJob (jobs_found s ! nat i), CustomizedResume cr, CoverLetter cl, Response t, Error None]"
      by blast
    have "customized_resume (merge s d) = Some cr \<and> cover_letter (merge s d) = Some cl"
      using g(4) by (simp add: merge_def)
    moreover have "(''customized_resume'' \<in> set (keys d)) = (''cover_letter'' \<in> set (keys d))"
      using g(4) by (simp add: keys_def)
    ultimately show ?thesis using node v g(1,2,3) by blast
  qed
qed

theorem customizer_documents_pair_witness:
  "\<exists>d. customizer_node online picked = Inr d \<and> Error None \<in> set d
      \<and> customized_resume (merge picked d) = Some ''Tailored resume''
      \<and> cover_letter (merge picked d) = Some []"
proof -
  have v: "validate_inputs picked = Inr (0, ''My resume'')"
    by (simp add: validate_inputs_def picked_def searched_def fresh_def create_initial_state_def)
  have g: "\<exists>t. generate_documents online ''My resume'' (jobs_found picked ! nat 0) =
      Inr [SelectedJob sample_job, CustomizedResume ''Tailored resume'', CoverLetter [], Response t, Error None]"
    by (simp add: generate_documents_def online_def offline_def terse_llm_def picked_def searched_def
        fresh_def create_initial_state_def)
  then obtain t where t: "customizer_node online picked =
      Inr [SelectedJob sample_job, CustomizedResume ''Tailored resume'', CoverLetter [], Response t, Error None]"
    using v by (auto simp: customizer_node_validated)
  from customizer_documents_pair [of online picked] obtain d where d:
    "customizer_node online picked = Inr d" by blast
  then show ?thesis
    using t by (auto simp: merge_def)
qed

text \<open>
  Claim C8 as stated fails where it promises non-empty text: the handler stores what the
  generator returns without looking at it. With a generator that answers the cover
  letter with the empty text, the turn succeeds and the cover letter is empty.
\<close>

theorem customizer_empty_letter_counterexample:
  "map_sum id error (run_node picked (customizer_node online picked)) = Inr None
   \<and> map_sum id cover_letter (run_node picked (customizer_node online picked)) = Inr (Some [])"
  by (simp add: customizer_node_def validate_inputs_def getitem_def generate_documents_def
      online_def offline_def terse_llm_def picked_def searched_def fresh_def
      create_initial_state_def merge_def)

section \<open>Failing collaborators\<close>





section \<open>The fetch-more loops\<close>

lemma recent_jobs_loop_length:
  "length acc < limit \<Longrightarrow> length (recent_jobs_loop rc limit rs acc) \<le> limit"
proof (induction rs arbitrary: acc)
  case Nil
  then show ?case by simp
next
  case (Cons r rs)
  show ?case
  proof (cases "appended rc r")
    case True
    then show ?thesis
      using Cons.prems Cons.IH [of "acc @ [remotive_entry r]"] by (simp add: Let_def)
  next
    case False
    then show ?thesis
      using Cons.prems Cons.IH [of acc] by (simp add: Let_def)
  qed
qed

lemma search_remotive_length: "length (search_remotive env q) \<le> 10"
  using recent_jobs_loop_length [of "[]" 10 "recent env"]
  by (simp add: search_remotive_def split: http.splits)

lemma add_unseen_shape:
  "\<exists>new. add_unseen js (acc, seen) = (acc @ new, seen \<union> link_of ` set new)
         \<and> distinct (map link_of new) \<and> link_of ` set new \<inter> seen = {}
         \<and> set new \<subseteq> set js \<and> length new \<le> length js"
proof (induction js arbitrary: acc seen)
  case Nil
  show ?case by simp
next
  case (Cons j js)
  show ?case
  proof (cases "link_of j \<in> seen")
    case True
    from Cons.IH [of acc seen] obtain new where
      "add_unseen js (acc, seen) = (acc @ new, seen \<union> link_of ` set new)"
      "distinct (map link_of new)" "link_of ` set new \<inter> seen = {}"
      "set new \<subseteq> set js" "length new \<le> length js" by blast
    then show ?thesis using True by (intro exI [of _ new]) auto
  next
    case False
    from Cons.IH [of "acc @ [j]" "insert (link_of j) seen"] obtain new where n:
      "add_unseen js (acc @ [j], insert (link_of j) seen) =
         ((acc @ [j]) @ new, insert (link_of j) seen \<union> link_of ` set new)"
      "distinct (map link_of new)" "link_of ` set new \<inter> insert (link_of j) seen = {}"
      "set new \<subseteq> set js" "length new \<le> length js" by blast
    show ?thesis using False n by (intro exI [of _ "j # new"]) auto
  qed
qed

lemma add_unseen_capped_shape:
  "\<exists>new. add_unseen_capped js (acc, seen) = (acc @ new, seen \<union> link_of ` set new)
         \<and> distinct (map link_of new) \<and> link_of ` set new \<inter> seen = {}
         \<and> set new \<subseteq> set js \<and> (length acc < 20 \<longrightarrow> length (acc @ new) \<le> 20)"
proof (induction js arbitrary: acc seen)
  case Nil
  show ?case by simp
next
  case (Cons j js)
  show ?case
  proof (cases "link_of j \<in> seen")
    case True
    from Cons.IH [of acc seen] obtain new where
      "add_unseen_capped js (acc, seen) = (acc @ new, seen \<union> link_of ` set new)"
      "distinct (map link_of new)" "link_of ` set new \<inter> seen = {}"
      "set new \<subseteq> set js" "length acc < 20 \<longrightarrow> length (acc @ new) \<le> 20" by blast
    then show ?thesis using True by (intro exI [of _ new]) auto
  next
    case False
    show ?thesis
    proof (cases "length (acc @ [j]) \<ge> 20")
      case True
      then show ?thesis using False by (intro exI [of _ "[j]"]) auto
    next
      case short: False
      from Cons.IH [of "acc @ [j]" "insert (link_of j) seen"] obtain new where n:
        "add_unseen_capped js (acc @ [j], insert (link_of j) seen) =
           ((acc @ [j]) @ new, insert (link_of j) seen \<union> link_of ` set new)"
        "distinct (map link_of new)" "link_of ` set new \<inter> insert (link_of j) seen = {}"
        "set new \<subseteq> set js" "length (acc @ [j]) < 20 \<longrightarrow> length ((acc @ [j]) @ new) \<le> 20" by blast
      show ?thesis using False short n by (intro exI [of _ "j # new"]) auto
    qed
  qed
qed

lemma variety_search_shape:
  "\<exists>new more. variety_search g vars (acc, seen, issued) = (acc @ new, seen \<union> link_of ` set new, issued @ more)
         \<and> distinct (map link_of new) \<and> link_of ` set new \<inter> seen = {}
         \<and> set new \<subseteq> (\<Union>v \<in> set vars. set (g v))
         \<and> (length acc \<le> 20 \<longrightarrow> length (acc @ new) \<le> 20)"
proof (induction vars arbitrary: acc seen issued)
  case Nil
  show ?case by simp
next
  case (Cons v vars)
  show ?case
  proof (cases "length acc \<ge> 15")
    case True
    then show ?thesis by (intro exI [of _ "[]"]) simp
  next
    case False
    from add_unseen_capped_shape [of "g v" acc seen] obtain n1 where n1:
      "add_unseen_capped (g v) (acc, seen) = (acc @ n1, seen \<union> link_of ` set n1)"
      "distinct (map link_of n1)" "link_of ` set n1 \<inter> seen = {}"
      "set n1 \<subseteq> set (g v)" "length acc < 20 \<longrightarrow> length (acc @ n1) \<le> 20" by blast
    from Cons.IH [of "acc @ n1" "seen \<union> link_of ` set n1" "issued @ [v]"] obtain n2 more where n2:
      "variety_search g vars (acc @ n1, seen \<union> link_of ` set n1, issued @ [v]) =
         ((acc @ n1) @ n2, (seen \<union> link_of ` set n1) \<union> link_of ` set n2, (issued @ [v]) @ more)"
      "distinct (map link_of n2)" "link_of ` set n2 \<inter> (seen \<union> link_of ` set n1) = {}"
      "set n2 \<subseteq> (\<Union>v \<in> set vars. set (g v))"
      "length (acc @ n1) \<le> 20 \<longrightarrow> length ((acc @ n1) @ n2) \<le> 20" by blast
    have eq: "variety_search g (v # vars) (acc, seen, issued) =
        (acc @ (n1 @ n2), seen \<union> link_of ` set (n1 @ n2), issued @ (v # more))"
      using False n1(1) n2(1) by (simp add: image_Un Un_assoc)
    have d: "distinct (map link_of (n1 @ n2))"
      using n1(2) n2(2,3) by auto
    have k: "link_of ` set (n1 @ n2) \<inter> seen = {}"
      using n1(3) n2(3) by auto
    have sub: "set (n1 @ n2) \<subseteq> (\<Union>v \<in> set (v # vars). set (g v))"
      using n1(4) n2(4) by auto
    have len: "length acc \<le> 20 \<longrightarrow> length (acc @ (n1 @ n2)) \<le> 20"
      using False n1(5) n2(5) by simp
    show ?thesis
      using eq d k sub len by blast
  qed
qed

lemma variety_search_stops:
  "15 \<le> length acc \<Longrightarrow> variety_search g vars (acc, seen, issued) = (acc, seen, issued)"
  by (cases vars) simp_all

section \<open>The fetch-more handler: accumulated jobs\<close>

lemma to_field_present: "to_field v \<noteq> Absent"
  by (cases v) simp_all

lemma remotive_entry_has_keys: "has_keys (remotive_entry r)"
  by (simp add: has_keys_def remotive_entry_def to_field_present)

lemma recent_jobs_loop_has_keys:
  "\<forall>j \<in> set acc. has_keys j \<Longrightarrow> \<forall>j \<in> set (recent_jobs_loop rc limit rs acc). has_keys j"
proof (induction rs arbitrary: acc)
  case Nil
  then show ?case by simp
next
  case (Cons r rs)
  define acc' where "acc' = (if appended rc r then acc @ [remotive_entry r] else acc)"
  have k: "\<forall>j \<in> set acc'. has_keys j"
    using Cons.prems remotive_entry_has_keys by (simp add: acc'_def)
  have step: "recent_jobs_loop rc limit (r # rs) acc =
      (if length acc' \<ge> limit then acc' else recent_jobs_loop rc limit rs acc')"
    by (simp add: acc'_def Let_def)
  show ?case
  proof (cases "length acc' \<ge> limit")
    case True
    then show ?thesis using k step by metis
  next
    case False
    then show ?thesis using Cons.IH [OF k] step by metis
  qed
qed

lemma search_remotive_has_keys: "\<forall>j \<in> set (search_remotive env q). has_keys j"
proof (cases "remotive_get env q")
  case Raised
  then show ?thesis by (simp add: search_remotive_def)
next
  case (Status code jobs)
  have "\<forall>j \<in> set (recent_jobs_loop (recent env) 10 jobs []). has_keys j"
    by (rule recent_jobs_loop_has_keys) simp
  then show ?thesis
    using Status by (simp add: search_remotive_def)
qed

lemma google_jobs_has_keys:
  "google_jobs loc items = Some js \<Longrightarrow> \<forall>j \<in> set js. has_keys j"
proof (induction items arbitrary: js)
  case Nil
  then show ?case by simp
next
  case (Cons item items)
  from Cons.prems obtain title_raw where t: "get_or (item_title item) ''Unknown Job'' = Some title_raw"
    by (cases "get_or (item_title item) ''Unknown Job''") simp_all
  from Cons.prems t obtain rest where r: "google_jobs loc items = Some rest"
    by (cases "google_jobs loc items") (simp_all add: Let_def)
  from Cons.prems t r obtain e where e: "js = e # rest" "has_keys e"
    by (auto simp: Let_def has_keys_def to_field_present)
  have "\<forall>j \<in> set rest. has_keys j"
    using r by (rule Cons.IH)
  then show ?case using e by simp
qed

lemma search_google_cases:
  "search_google env v loc = [] \<or> (\<exists>items. google_jobs loc items = Some (search_google env v loc))"
proof (cases "google_get env v loc")
  case Raised
  then show ?thesis by (simp add: search_google_def)
next
  case (Status code items)
  show ?thesis
  proof (cases "google_jobs loc items")
    case None
    then have "search_google env v loc = []"
      using Status by (simp add: search_google_def)
    then show ?thesis by simp
  next
    case (Some js)
    then have "search_google env v loc = [] \<or> search_google env v loc = js"
      using Status by (simp add: search_google_def)
    then show ?thesis using Some by auto
  qed
qed

lemma search_google_has_keys: "\<forall>j \<in> set (search_google env v loc). has_keys j"
proof -
  have "search_google env v loc = [] \<or> (\<exists>items. google_jobs loc items = Some (search_google env v loc))"
    by (rule search_google_cases)
  then show ?thesis
  proof
    assume "search_google env v loc = []"
    then show ?thesis by simp
  next
    assume "\<exists>items. google_jobs loc items = Some (search_google env v loc)"
    then obtain items where "google_jobs loc items = Some (search_google env v loc)" by blast
    then show ?thesis by (rule google_jobs_has_keys)
  qed
qed

lemma format_extra_job_total:
  assumes "has_keys j"
  shows "\<exists>t. format_extra_job j i = Inr t"
proof -
  obtain a b c where "subscript (title j) = Inr a" "subscript (company j) = Inr b"
    "subscript (link j) = Inr c"
    using assms
    by (cases "title j"; cases "company j"; cases "link j") (simp_all add: has_keys_def)
  then show ?thesis by (simp add: format_extra_job_def)
qed

lemma format_extra_jobs_total:
  "\<forall>j \<in> set js. has_keys j \<Longrightarrow> \<exists>t. format_extra_jobs js i = Inr t"
proof (induction js arbitrary: i)
  case Nil
  show ?case by simp
next
  case (Cons j js)
  have "has_keys j" using Cons.prems by simp
  then obtain t where t: "format_extra_job j i = Inr t"
    using format_extra_job_total by blast
  have "\<forall>j \<in> set js. has_keys j" using Cons.prems by simp
  then obtain r where r: "format_extra_jobs js (Suc i) = Inr r"
    using Cons.IH by blast
  show ?case using t r by simp
qed

lemma collect_extra_shape:
  "\<exists>extra seen issued. collect_extra env s q = (extra, seen, issued)
      \<and> distinct (map link_of extra)
      \<and> link_of ` set extra \<inter> link_of ` set (jobs_found s) = {}
      \<and> length extra \<le> 20
      \<and> (\<forall>j \<in> set extra. has_keys j)"
proof -
  let ?seen0 = "set (map link_of (jobs_found s))"
  let ?g = "\<lambda>var. search_google env var (location s)"
  from add_unseen_shape [of "search_remotive env q" "[]" ?seen0] obtain n1 where n1:
    "add_unseen (search_remotive env q) ([], ?seen0) = ([] @ n1, ?seen0 \<union> link_of ` set n1)"
    "distinct (map link_of n1)" "link_of ` set n1 \<inter> ?seen0 = {}"
    "set n1 \<subseteq> set (search_remotive env q)" "length n1 \<le> length (search_remotive env q)" by blast
  from variety_search_shape [of ?g "expand_query env q" n1 "?seen0 \<union> link_of ` set n1" "[]"]
  obtain n2 more where n2:
    "variety_search ?g (expand_query env q) (n1, ?seen0 \<union> link_of ` set n1, []) =
       (n1 @ n2, (?seen0 \<union> link_of ` set n1) \<union> link_of ` set n2, [] @ more)"
    "distinct (map link_of n2)" "link_of ` set n2 \<inter> (?seen0 \<union> link_of ` set n1) = {}"
    "set n2 \<subseteq> (\<Union>v \<in> set (expand_query env q). set (?g v))"
    "length n1 \<le> 20 \<longrightarrow> length (n1 @ n2) \<le> 20" by blast
  have eq: "collect_extra env s q = (n1 @ n2, (?seen0 \<union> link_of ` set n1) \<union> link_of ` set n2, more)"
    using n1(1) n2(1) by (simp add: collect_extra_def)
  have d: "distinct (map link_of (n1 @ n2))"
    using n1(2) n2(2,3) by auto
  have k: "link_of ` set (n1 @ n2) \<inter> link_of ` set (jobs_found s) = {}"
    using n1(3) n2(3) by auto
  have "length n1 \<le> 10"
    using n1(5) search_remotive_length [of env q] by simp
  then have len: "length (n1 @ n2) \<le> 20"
    using n2(5) by simp
  have "\<forall>j \<in> set n1. has_keys j"
    using n1(4) search_remotive_has_keys [of env q] by blast
  moreover have "\<forall>j \<in> set n2. has_keys j"
  proof
    fix j assume "j \<in> set n2"
    then obtain v where "j \<in> set (search_google env v (location s))"
      using n2(4) by blast
    then show "has_keys j" using search_google_has_keys by blast
  qed
  ultimately have keys: "\<forall>j \<in> set (n1 @ n2). has_keys j"
    by auto
  show ?thesis using eq d k len keys by blast
qed

lemma more_jobs_with_result:
  "\<exists>d. more_jobs_with env s q = Inr d
      \<and> jobs_found (merge s d) = jobs_found s @ fst (collect_extra env s q)"
proof -
  from collect_extra_shape [of env s q] obtain extra seen issued where c:
    "collect_extra env s q = (extra, seen, issued)" "\<forall>j \<in> set extra. has_keys j" by blast
  show ?thesis
  proof (cases "extra = []")
    case True
    then show ?thesis using c(1) by (simp add: more_jobs_with_def merge_def)
  next
    case False
    obtain t where "format_extra_jobs extra (length (jobs_found s) + 1) = Inr t"
      using format_extra_jobs_total [OF c(2)] by blast
    then show ?thesis using c(1) False by (simp add: more_jobs_with_def merge_def Let_def)
  qed
qed

lemma more_jobs_node_result:
  "\<exists>d extra. more_jobs_node env s = Inr d \<and> jobs_found (merge s d) = jobs_found s @ extra
      \<and> (extra = [] \<or> (\<exists>q. extra = fst (collect_extra env s q)))"
proof -
  have no: "jobs_found (merge s no_query) = jobs_found s @ []"
    by (simp add: no_query_def merge_def)
  have "more_jobs_node env s = Inr no_query \<or> (\<exists>q. more_jobs_node env s = more_jobs_with env s q)"
    by (auto simp: more_jobs_node_def Let_def split: option.splits)
  then show ?thesis
  proof
    assume "more_jobs_node env s = Inr no_query"
    then show ?thesis using no by blast
  next
    assume "\<exists>q. more_jobs_node env s = more_jobs_with env s q"
    then obtain q where q: "more_jobs_node env s = more_jobs_with env s q" by blast
    from more_jobs_with_result [of env s q] obtain d where
      "more_jobs_with env s q = Inr d" "jobs_found (merge s d) = jobs_found s @ fst (collect_extra env s q)"
      by blast
    then show ?thesis using q by auto
  qed
qed

lemma collect_extra_fst:
  "distinct (map link_of (fst (collect_extra env s q)))
   \<and> link_of ` set (fst (collect_extra env s q)) \<inter> link_of ` set (jobs_found s) = {}
   \<and> length (fst (collect_extra env s q)) \<le> 20"
proof -
  from collect_extra_shape [of env s q] obtain extra seen issued where
    "collect_extra env s q = (extra, seen, issued)" "distinct (map link_of extra)"
    "link_of ` set extra \<inter> link_of ` set (jobs_found s) = {}" "length extra \<le> 20"
    by blast
  then show ?thesis by simp
qed

text \<open>
  Claim C5. The fetch-more handler never faults, and the job list after the merge of its
  result is the old list followed by the jobs of this turn: the old entries keep their
  indices, no new job has the link of an old one, and no two new jobs have one link.
\<close>

theorem more_jobs_no_duplicate_links:
  "\<exists>d extra. more_jobs_node env s = Inr d
      \<and> jobs_found (merge s d) = jobs_found s @ extra
      \<and> distinct (map link_of extra)
      \<and> (\<forall>j \<in> set extra. link_of j \<notin> link_of ` set (jobs_found s))
      \<and> (\<forall>k < length (jobs_found s). jobs_found (merge s d) ! k = jobs_found s ! k)"
proof -
  from more_jobs_node_result [of env s] obtain d extra where r:
    "more_jobs_node env s = Inr d" "jobs_found (merge s d) = jobs_found s @ extra"
    "extra = [] \<or> (\<exists>q. extra = fst (collect_extra env s q))" by blast
  have de: "distinct (map link_of extra) \<and> link_of ` set extra \<inter> link_of ` set (jobs_found s) = {}"
  proof (cases "extra = []")
    case True
    then show ?thesis by simp
  next
    case False
    then obtain q where "extra = fst (collect_extra env s q)" using r(3) by blast
    then show ?thesis using collect_extra_fst [of env s q] by simp
  qed
  have fresh_links: "\<forall>j \<in> set extra. link_of j \<notin> link_of ` set (jobs_found s)"
  proof
    fix j assume "j \<in> set extra"
    then have "link_of j \<in> link_of ` set extra" by (rule imageI)
    then show "link_of j \<notin> link_of ` set (jobs_found s)" using de by blast
  qed
  have prefix: "\<forall>k < length (jobs_found s). jobs_found (merge s d) ! k = jobs_found s ! k"
    using r(2) by (simp add: nth_append)
  show ?thesis
    using r(1,2) de fresh_links prefix by blast
qed

theorem more_jobs_no_duplicate_links_witness:
  "\<exists>d extra. more_jobs_node boards searched = Inr d
      \<and> jobs_found (merge searched d) = jobs_found searched @ extra
      \<and> extra = [remotive_entry new_posting]
      \<and> distinct (map link_of extra)
      \<and> (\<forall>j \<in> set extra. link_of j \<notin> link_of ` set (jobs_found searched))
      \<and> (\<forall>k < length (jobs_found searched). jobs_found (merge searched d) ! k = jobs_found searched ! k)"
proof -
  have run: "map_sum id jobs_found (run_node searched (more_jobs_node boards searched)) =
      Inr [sample_job, remotive_entry new_posting]"
    by code_simp
  have old: "jobs_found searched = [sample_job]"
    by (simp add: searched_def)
  from more_jobs_no_duplicate_links [of boards searched] obtain d extra where r:
    "more_jobs_node boards searched = Inr d"
    "jobs_found (merge searched d) = jobs_found searched @ extra"
    "distinct (map link_of extra)"
    "\<forall>j \<in> set extra. link_of j \<notin> link_of ` set (jobs_found searched)"
    "\<forall>k < length (jobs_found searched). jobs_found (merge searched d) ! k = jobs_found searched ! k"
    by blast
  have "jobs_found (merge searched d) = [sample_job, remotive_entry new_posting]"
    using run r(1) by simp
  then have "extra = [remotive_entry new_posting]"
    using r(2) old by simp
  then show ?thesis using r by blast
qed

text \<open>
  Claim C4. In one fetch-more turn at most 20 jobs are appended. The loop over the
  variations issues no search once 15 jobs have accumulated (it returns its state as it
  is), the loop over one search result stops at the append that brings the count to 20,
  and started below 20 it never exceeds 20. The first stage, over the Remotive jobs, has
  no threshold of its own; it adds at most the ten jobs \<open>search_remotive\<close> returns.
\<close>

theorem more_jobs_caps:
  "(\<exists>d extra. more_jobs_node env s = Inr d \<and> jobs_found (merge s d) = jobs_found s @ extra
       \<and> length extra \<le> 20)
   \<and> length (fst (collect_extra env s q)) \<le> 20
   \<and> (15 \<le> length acc \<longrightarrow> variety_search g vars (acc, seen, issued) = (acc, seen, issued))
   \<and> (link_of j \<notin> seen \<and> 20 \<le> length (acc @ [j]) \<longrightarrow>
        add_unseen_capped (j # js) (acc, seen) = (acc @ [j], insert (link_of j) seen))
   \<and> (length acc < 20 \<longrightarrow> length (fst (add_unseen_capped js (acc, seen))) \<le> 20)"
proof -
  from more_jobs_node_result [of env s] obtain d extra where r:
    "more_jobs_node env s = Inr d" "jobs_found (merge s d) = jobs_found s @ extra"
    "extra = [] \<or> (\<exists>q. extra = fst (collect_extra env s q))" by blast
  have "length extra \<le> 20"
  proof (cases "extra = []")
    case True
    then show ?thesis by simp
  next
    case False
    then obtain q' where "extra = fst (collect_extra env s q')" using r(3) by blast
    then show ?thesis using collect_extra_fst [of env s q'] by simp
  qed
  then have first: "\<exists>d extra. more_jobs_node env s = Inr d \<and> jobs_found (merge s d) = jobs_found s @ extra
       \<and> length extra \<le> 20"
    using r(1,2) by blast
  have second: "length (fst (collect_extra env s q)) \<le> 20"
    using collect_extra_fst [of env s q] by simp
  have third: "15 \<le> length acc \<longrightarrow> variety_search g vars (acc, seen, issued) = (acc, seen, issued)"
    by (simp add: variety_search_stops)
  have fourth: "link_of j \<notin> seen \<and> 20 \<le> length (acc @ [j]) \<longrightarrow>
        add_unseen_capped (j # js) (acc, seen) = (acc @ [j], insert (link_of j) seen)"
    by simp
  have fifth: "length acc < 20 \<longrightarrow> length (fst (add_unseen_capped js (acc, seen))) \<le> 20"
  proof
    assume a: "length acc < 20"
    from add_unseen_capped_shape [of js acc seen] obtain new where
      "add_unseen_capped js (acc, seen) = (acc @ new, seen \<union> link_of ` set new)"
      "length acc < 20 \<longrightarrow> length (acc @ new) \<le> 20" by blast
    then show "length (fst (add_unseen_capped js (acc, seen))) \<le> 20" using a by simp
  qed
  show ?thesis
    using first second third fourth fifth by blast
qed

theorem more_jobs_caps_witness:
  "15 \<le> length (replicate 19 sample_job)
   \<and> variety_search (\<lambda>var. [sample_job]) [''data engineer''] (replicate 19 sample_job, {}, []) =
       (replicate 19 sample_job, {}, [])
   \<and> (link_of sample_job \<notin> {} \<and> 20 \<le> length (replicate 19 sample_job @ [sample_job]))
   \<and> add_unseen_capped (sample_job # [sample_job]) (replicate 19 sample_job, {}) =
       (replicate 19 sample_job @ [sample_job], insert (link_of sample_job) {})
   \<and> length (replicate 19 sample_job) < 20
   \<and> length (fst (add_unseen_capped [sample_job] (replicate 19 sample_job, {}))) \<le> 20
   \<and> length (fst (collect_extra crowded searched ''python'')) \<le> 20
   \<and> map_sum id (\<lambda>r. length (jobs_found r)) (run_node searched (more_jobs_node crowded searched)) = Inr 21"
proof -
  have run: "map_sum id (\<lambda>r. length (jobs_found r)) (run_node searched (more_jobs_node crowded searched)) = Inr 21"
    by code_simp
  have h1: "15 \<le> length (replicate 19 sample_job)"
    and h2: "link_of sample_job \<notin> {} \<and> 20 \<le> length (replicate 19 sample_job @ [sample_job])"
    and h3: "length (replicate 19 sample_job) < 20"
    by simp_all
  note r = more_jobs_caps [of crowded searched "''python''" "replicate 19 sample_job"
        "\<lambda>var. [sample_job]" "[''data engineer'']" "{}" "[]" sample_job "[sample_job]"]
  show ?thesis
    using h1 h2 h3 run r by blast
qed

section \<open>Facts about trimming, case folding and tokens\<close>

subsection \<open>Characters\<close>

lemma of_char_lower_char:
  "(of_char (lower_char c) :: nat) =
     (if 65 \<le> (of_char c :: nat) \<and> (of_char c :: nat) \<le> 90 then of_char c + 32 else of_char c)"
  by (simp add: lower_char_def Let_def)

lemma is_space_lower_char [simp]: "is_space (lower_char c) = is_space c"
  by (auto simp: is_space_def of_char_lower_char Let_def)

lemma is_digit_lower_char [simp]: "is_digit (lower_char c) = is_digit c"
  by (auto simp: is_digit_def of_char_lower_char Let_def)


lemma lower_char_idem [simp]: "lower_char (lower_char c) = lower_char c"
proof -
  have "(of_char (lower_char (lower_char c)) :: nat) = of_char (lower_char c)"
    by (simp add: of_char_lower_char)
  then show ?thesis by simp
qed

lemma lower_char_eq_iff:
  assumes "\<not> (97 \<le> (of_char d :: nat) \<and> (of_char d :: nat) \<le> 122)"
    and "\<not> (65 \<le> (of_char d :: nat) \<and> (of_char d :: nat) \<le> 90)"
  shows "(lower_char c = d) = (c = d)"
proof -
  have "((of_char (lower_char c) :: nat) = of_char d) = ((of_char c :: nat) = of_char d)"
    using assms by (auto simp: of_char_lower_char)
  then show ?thesis by simp
qed

lemma lower_char_minus [simp]: "(lower_char c = CHR ''-'') = (c = CHR ''-'')"
  by (rule lower_char_eq_iff) simp_all

lemma lower_char_plus [simp]: "(lower_char c = CHR ''+'') = (c = CHR ''+'')"
  by (rule lower_char_eq_iff) simp_all

lemma lower_char_underscore [simp]: "(lower_char c = CHR ''_'') = (c = CHR ''_'')"
  by (rule lower_char_eq_iff) simp_all



subsection \<open>Trimming and case folding\<close>

lemma strip_Nil [simp]: "strip [] = []"
  by (simp add: strip_def)

lemma strip_id:
  assumes "s \<noteq> []" "\<not> is_space (hd s)" "\<not> is_space (last s)"
  shows "strip s = s"
proof -
  have a: "dropWhile is_space s = s"
    using assms(1,2) by (cases s) simp_all
  have "rev s \<noteq> []" "\<not> is_space (hd (rev s))"
    using assms(1,3) by (simp_all add: hd_rev)
  then have "dropWhile is_space (rev s) = rev s"
    by (cases "rev s") simp_all
  then show ?thesis using a by (simp add: strip_def)
qed

lemma strip_ends:
  assumes "strip s \<noteq> []"
  shows "\<not> is_space (hd (strip s))" "\<not> is_space (last (strip s))"
proof -
  define d where "d = dropWhile is_space s"
  define u where "u = dropWhile is_space (rev d)"
  have su: "strip s = rev u" by (simp add: strip_def d_def u_def)
  have une: "u \<noteq> []" using assms su by simp
  then have "\<not> is_space (hd u)" unfolding u_def by (rule hd_dropWhile)
  then show "\<not> is_space (last (strip s))" using su une by (simp add: last_rev)
  have "takeWhile is_space (rev d) @ u = rev d"
    unfolding u_def by (rule takeWhile_dropWhile_id)
  then have "rev (takeWhile is_space (rev d) @ u) = d" by simp
  then have dd: "d = rev u @ rev (takeWhile is_space (rev d))" by simp
  have "rev u \<noteq> []" using une by simp
  then have "hd d = hd (rev u)" using dd by (metis hd_append2)
  moreover have "d \<noteq> []" using dd une by auto
  then have "\<not> is_space (hd d)" unfolding d_def by (rule hd_dropWhile)
  ultimately show "\<not> is_space (hd (strip s))" using su by simp
qed

lemma strip_strip [simp]: "strip (strip s) = strip s"
proof (cases "strip s = []")
  case True
  then show ?thesis by simp
next
  case False
  then show ?thesis using strip_ends [OF False] by (intro strip_id)
qed



lemma set_strip: "set (strip s) \<subseteq> set s"
proof -
  have "set (strip s) \<subseteq> set (dropWhile is_space s)"
    unfolding strip_def using set_dropWhileD by fastforce
  then show ?thesis using set_dropWhileD by fastforce
qed

lemma lower_idem [simp]: "lower (lower s) = lower s"
  by (simp add: lower_def)



subsection \<open>Deleting a command word\<close>







subsection \<open>Tokens\<close>









subsection \<open>Decimal numerals\<close>











subsection \<open>Parsing is blind to case\<close>

lemma lower_Nil [simp]: "lower [] = []"
  by (simp add: lower_def)

lemma lower_Cons [simp]: "lower (c # cs) = lower_char c # lower cs"
  by (simp add: lower_def)








section \<open>Properties of the router\<close>

subsection \<open>The router on a job number\<close>

lemma startswith_Nil [simp]: "startswith s []"
  by (simp add: startswith_def)







section \<open>Job numbers that are not positive\<close>






section \<open>The router on a search command\<close>







end
